theory Spec2Isabelle
  imports Complex_Main
begin

section \<open>Python values\<close>

text \<open>
  A Python \<open>str\<close> is a sequence of Unicode code points; it is modelled as the list of
  their numbers, so that \<open>str.split()\<close> and \<open>str.strip()\<close> see the same white space as
  Python does. \<open>bytes\<close> are lists of numbers below 256. \<open>ustr\<close> turns a literal of the
  theory into such a string.
\<close>

type_synonym pystr = "nat list"
type_synonym bytes = "nat list"

definition ustr :: "string \<Rightarrow> pystr" where
  "ustr s = map of_char s"

text \<open>
  The code points for which \<open>str.isspace()\<close> holds; \<open>split()\<close> without arguments and
  \<open>strip()\<close> without arguments separate and trim on exactly these.
\<close>

definition is_space :: "nat \<Rightarrow> bool" where
  "is_space c \<longleftrightarrow>
     (9 \<le> c \<and> c \<le> 13) \<or> (28 \<le> c \<and> c \<le> 32) \<or> c = 133 \<or> c = 160 \<or> c = 5760 \<or>
     (8192 \<le> c \<and> c \<le> 8202) \<or> c = 8232 \<or> c = 8233 \<or> c = 8239 \<or> c = 8287 \<or> c = 12288"

text \<open>\<open>s.strip()\<close>: white space removed from both ends.\<close>

definition strip :: "pystr \<Rightarrow> pystr" where
  "strip s = rev (dropWhile is_space (rev (dropWhile is_space s)))"

text \<open>
  \<open>s.split()\<close>: the maximal runs of characters that are not white space, from left to
  right. \<open>cur\<close> is the word being read.
\<close>

fun split_from :: "pystr \<Rightarrow> pystr \<Rightarrow> pystr list" where
  "split_from cur [] = (if cur = [] then [] else [cur])"
| "split_from cur (c # cs) =
     (if is_space c then (if cur = [] then split_from [] cs else cur # split_from [] cs)
      else split_from (cur @ [c]) cs)"

definition split :: "pystr \<Rightarrow> pystr list" where
  "split s = split_from [] s"

text \<open>
  A Python \<open>float\<close> is an IEEE 754 binary64 number. A finite one is given by its exact
  value, a rational number.
\<close>

datatype pyfloat = Finite rat | NegZero | PosInf | NegInf | NaN

text \<open>
  The values that \<open>json.loads\<close> produces and that the timings are made of. A \<open>dict\<close> keeps
  its keys in insertion order, so it is a list of pairs.
\<close>

datatype pyval =
    PNone
  | PBool bool
  | PInt int
  | PFloat pyfloat
  | PStr pystr
  | PList "pyval list"
  | PDict "(pystr \<times> pyval) list"

text \<open>
  The exceptions of the model. Each carries its text \<open>str(exc)\<close>. \<open>os_error_text\<close> is that
  text for the instances of \<open>OSError\<close>, which \<open>except OSError\<close> catches, and \<open>None\<close> for the
  others.
\<close>

datatype pyexc =
    RuntimeError pystr
  | AttributeError pystr
  | ValueError pystr
  | UnicodeDecodeError pystr
  | JSONDecodeError pystr
  | OSError pystr
  | BrokenPipeError pystr
  | FileNotFoundError pystr
  | IsADirectoryError pystr
  | TimeoutExpired

definition os_error_text :: "pyexc \<Rightarrow> pystr option" where
  "os_error_text exc =
     (case exc of
        OSError m \<Rightarrow> Some m
      | BrokenPipeError m \<Rightarrow> Some m
      | FileNotFoundError m \<Rightarrow> Some m
      | IsADirectoryError m \<Rightarrow> Some m
      | _ \<Rightarrow> None)"

text \<open>What \<open>except BrokenPipeError\<close> catches.\<close>

definition broken_pipe :: "pyexc \<Rightarrow> bool" where
  "broken_pipe exc = (case exc of BrokenPipeError m \<Rightarrow> True | _ \<Rightarrow> False)"

section \<open>Binary64 addition in the timing loop\<close>

text \<open>
  The loop of \<open>synthesize\<close> starts at \<open>0.0\<close> and only ever adds the constant \<open>0.2\<close>, which as a
  binary64 number is \<open>7205759403792794 / 2^55\<close>. Every value of \<open>start\<close> is therefore a
  non-negative multiple of \<open>2^-55\<close> and is held as that multiple, a natural number:
  \<open>dbl k\<close> is the float it stands for. The sum of two such floats is their exact sum
  rounded to 53 significant bits, ties to even (\<open>rne53\<close>); below \<open>2^53\<close> units every
  multiple has at most 53 bits and is a float itself. Overflow to infinity needs a sum of
  \<open>2^1024\<close>; the sums of the first \<open>2^52\<close> rounds stay below \<open>2^51\<close> (lemma \<open>start_bound\<close>).
\<close>

fun bit_length :: "nat \<Rightarrow> nat" where
  "bit_length n = (if n = 0 then 0 else Suc (bit_length (n div 2)))"

declare bit_length.simps [simp del]

definition rne53 :: "nat \<Rightarrow> nat" where
  "rne53 x =
     (if x < 2 ^ 53 then x
      else let sh = bit_length x - 53;
               q = x div 2 ^ sh;
               r = x mod 2 ^ sh;
               half = 2 ^ (sh - 1)
           in if r < half then q * 2 ^ sh
              else if half < r then (q + 1) * 2 ^ sh
              else if even q then q * 2 ^ sh
              else (q + 1) * 2 ^ sh)"

definition fadd :: "nat \<Rightarrow> nat \<Rightarrow> nat" where
  "fadd a b = rne53 (a + b)"

definition c02 :: nat where
  "c02 = 7205759403792794"

definition dbl :: "nat \<Rightarrow> rat" where
  "dbl k = of_nat k / 2 ^ 55"

section \<open>The fallback timings\<close>

text \<open>
  \<^verbatim>\<open>
  timings = []
  start = 0.0
  for word in text.split():
      timings.append({"word": word, "startTime": start, "endTime": start + 0.2})
      start += 0.2
  \<close>
\<close>

fun fallback_loop :: "pystr list \<Rightarrow> nat \<Rightarrow> pyval list \<Rightarrow> pyval list" where
  "fallback_loop [] start timings = timings"
| "fallback_loop (word # ws) start timings =
     fallback_loop ws (fadd start c02)
       (timings @
         [PDict [(ustr ''word'', PStr word),
                 (ustr ''startTime'', PFloat (Finite (dbl start))),
                 (ustr ''endTime'', PFloat (Finite (dbl (fadd start c02))))]])"

definition fallback_timings :: "pystr \<Rightarrow> pyval" where
  "fallback_timings text = PList (fallback_loop (split text) 0 [])"

section \<open>Files, the engine process and the outside world\<close>

text \<open>
  The file system maps the text given to \<open>Path\<close> to what that path names; the empty text
  names the current directory. \<open>Path(d) / name\<close> is \<open>joinpath d name\<close>; \<open>under d p\<close> says that
  \<open>p\<close> is the directory \<open>d\<close> or lies in it. \<open>path_exists\<close> and \<open>read_bytes\<close> are the lookup and
  the read on a path that the operating system can reach; \<open>stat_exists\<close> and \<open>read_file\<close>
  below are \<open>Path.exists()\<close> and \<open>Path.read_bytes()\<close>, \<open>Path.read_text()\<close> with the errors of
  the operating system.
\<close>

datatype node = File bytes | Dir

type_synonym filesystem = "pystr \<Rightarrow> node option"

definition path_exists :: "filesystem \<Rightarrow> pystr \<Rightarrow> bool" where
  "path_exists f p \<longleftrightarrow> f p \<noteq> None"

definition errno_text :: "string \<Rightarrow> pystr \<Rightarrow> pystr" where
  "errno_text s p = ustr s @ [39] @ p @ [39]"

definition read_bytes :: "filesystem \<Rightarrow> pystr \<Rightarrow> pyexc + bytes" where
  "read_bytes f p =
     (case f p of
        None \<Rightarrow> Inl (FileNotFoundError (errno_text ''[Errno 2] No such file or directory: '' p))
      | Some Dir \<Rightarrow> Inl (IsADirectoryError (errno_text ''[Errno 21] Is a directory: '' p))
      | Some (File b) \<Rightarrow> Inr b)"

definition joinpath :: "pystr \<Rightarrow> pystr \<Rightarrow> pystr" where
  "joinpath d name = d @ ustr ''/'' @ name"

definition under :: "pystr \<Rightarrow> pystr \<Rightarrow> bool" where
  "under d p \<longleftrightarrow> p = d \<or> take (Suc (length d)) p = d @ ustr ''/''"

text \<open>
  \<open>tempfile.TemporaryDirectory()\<close> creates the directory on entry of the \<open>with\<close> block and
  removes it with everything in it on exit, also when the block raises.
\<close>

definition mkdtemp :: "pystr \<Rightarrow> filesystem \<Rightarrow> filesystem" where
  "mkdtemp d f = f(d \<mapsto> Dir)"

definition rmtree :: "pystr \<Rightarrow> filesystem \<Rightarrow> filesystem" where
  "rmtree d f = (\<lambda>p. if under d p then None else f p)"

text \<open>\<open>base64.b64encode(b).decode("ascii")\<close>, with the standard alphabet and \<open>=\<close> padding.\<close>

definition b64char :: "nat \<Rightarrow> nat" where
  "b64char i =
     (if i < 26 then 65 + i
      else if i < 52 then 97 + (i - 26)
      else if i < 62 then 48 + (i - 52)
      else if i = 62 then 43 else 47)"

fun b64encode :: "bytes \<Rightarrow> pystr" where
  "b64encode (a # b # c # rest) =
     [b64char (a div 4), b64char ((a mod 4) * 16 + b div 16),
      b64char ((b mod 16) * 4 + c div 64), b64char (c mod 64)] @ b64encode rest"
| "b64encode [a, b] =
     [b64char (a div 4), b64char ((a mod 4) * 16 + b div 16), b64char ((b mod 16) * 4), 61]"
| "b64encode [a] = [b64char (a div 4), b64char ((a mod 4) * 16), 61, 61]"
| "b64encode [] = []"

text \<open>
  The \<open>Popen\<close> object of the engine as one call sees it: \<open>returncode\<close> is what \<open>poll()\<close>
  returns (\<open>None\<close> while the process runs), \<open>stdin\<close> and \<open>stdout\<close> say whether the
  attribute is a stream rather than \<open>None\<close>, and \<open>stderr\<close> is \<open>None\<close> or what
  \<open>stderr.read()\<close> does: it returns the text of the stream, or raises (the stream is
  opened with \<open>text=True\<close>, and bytes that are not text raise \<open>UnicodeDecodeError\<close>).
\<close>

record popen =
  returncode :: "int option"
  stdin :: bool
  stdout :: bool
  stderr :: "(pyexc + pystr) option"

record manager =
  executable :: pystr
  process :: "popen option"

text \<open>
  Everything outside the wrapper that a call depends on:
  \<^item> \<open>fs\<close>, the file system when the call starts, and \<open>tmp_name\<close>, the directory that
    \<open>TemporaryDirectory()\<close> creates;
  \<^item> \<open>stat_error\<close>: the \<open>OSError\<close> that the operating system raises when the path is looked
    up or opened (a name that is too long, a directory that may not be searched), if any;
    \<open>Path.exists()\<close> passes it on in Python 3.10 to 3.12;
  \<^item> \<open>write_error\<close>: the exception that \<open>stdin.write\<close> or \<open>flush\<close> raises, if any;
  \<^item> \<open>engine\<close>: what the engine, given the request, does to the file system before it answers;
  \<^item> \<open>response\<close>: what \<open>stdout.readline()\<close> does for the request: it returns a line, the
    empty string at end of file, or raises;
  \<^item> \<open>json_loads\<close>: \<open>json.loads\<close> on the text of a file, an exception when the file is not
    text or does not parse;
  \<^item> \<open>subprocess_run\<close>: \<open>subprocess.run\<close> on an argument list, \<open>Inl\<close> the exception it
    raises (an \<open>OSError\<close> when the executable cannot be started, a \<open>ValueError\<close> for a NUL in
    its name, a \<open>UnicodeDecodeError\<close> for output that is not text) or \<open>Inr\<close> the captured
    \<open>(stdout, stderr)\<close>;
  \<^item> \<open>which\<close> and \<open>spawn\<close>: \<open>shutil.which\<close> and \<open>subprocess.Popen\<close>;
  \<^item> \<open>wait_result\<close>: after \<open>terminate()\<close>, the return code when the process exits within
    the 5 seconds of \<open>wait\<close>, \<open>None\<close> when \<open>wait\<close> raises \<open>TimeoutExpired\<close>.
  The request is the dictionary handed to \<open>json.dumps\<close>; its JSON text is a function of it.
  Calls that block are taken to return, and the creation and the removal of the scratch
  directory succeed.
\<close>

record env =
  fs :: filesystem
  tmp_name :: pystr
  stat_error :: "pystr \<Rightarrow> pyexc option"
  write_error :: "pyexc option"
  engine :: "pyval \<Rightarrow> filesystem \<Rightarrow> filesystem"
  response :: "pyval \<Rightarrow> pyexc + pystr"
  json_loads :: "bytes \<Rightarrow> pyexc + pyval"
  subprocess_run :: "pystr list \<Rightarrow> pyexc + (pystr \<times> pystr)"
  which :: "pystr \<Rightarrow> pystr option"
  spawn :: "pystr list \<Rightarrow> pyexc + popen"
  wait_result :: "int option"

section \<open>The wrapper\<close>

text \<open>
  \<open>__init__\<close>: \<open>if model:\<close> and \<open>if config:\<close> skip \<open>None\<close> and the empty string. The command
  line is printed; the print is not modelled.
\<close>

definition truthy :: "pystr option \<Rightarrow> bool" where
  "truthy s \<longleftrightarrow> (case s of None \<Rightarrow> False | Some t \<Rightarrow> t \<noteq> [])"

definition init :: "env \<Rightarrow> pystr \<Rightarrow> pystr option \<Rightarrow> pystr option \<Rightarrow> pyexc + manager" where
  "init e exe model config =
     (let cmd = [exe]
            @ (case model of None \<Rightarrow> [] | Some m \<Rightarrow> if m = [] then [] else [ustr ''--model'', m])
            @ (case config of None \<Rightarrow> [] | Some c \<Rightarrow> if c = [] then [] else [ustr ''--config'', c])
            @ [ustr ''--json-input'']
      in if truthy (which e exe) then
           (case spawn e cmd of
              Inl exc \<Rightarrow> Inl exc
            | Inr p \<Rightarrow> Inr \<lparr>executable = exe, process = Some p\<rparr>)
         else Inr \<lparr>executable = exe, process = None\<rparr>)"

text \<open>
  \<open>_get_error_message\<close>: the message, or the exception of the probe that \<open>except OSError\<close>
  does not catch.
\<close>

definition get_error_message :: "manager \<Rightarrow> env \<Rightarrow> pyexc + pystr" where
  "get_error_message self e =
     (case subprocess_run e [executable self, ustr ''--version''] of
        Inl exc \<Rightarrow>
          (case os_error_text exc of
             Some exc_text \<Rightarrow> Inr exc_text
           | None \<Rightarrow> Inl exc)
      | Inr (out, err) \<Rightarrow>
          (let msg = (if strip err \<noteq> [] then strip err else strip out)
           in if msg \<noteq> [] then Inr msg else Inr (ustr ''Piper executable not found'')))"

text \<open>
  \<open>self.process.stderr.read() if self.process.stderr else ""\<close>, and the exception that
  follows it in the source: \<open>RuntimeError(message(stderr))\<close>, or what the read raises.
\<close>

definition read_stderr :: "popen \<Rightarrow> pyexc + pystr" where
  "read_stderr p = (case stderr p of None \<Rightarrow> Inr [] | Some r \<Rightarrow> r)"

definition stderr_failure :: "popen \<Rightarrow> (pystr \<Rightarrow> pystr) \<Rightarrow> pyexc" where
  "stderr_failure p message =
     (case read_stderr p of Inl exc \<Rightarrow> exc | Inr s \<Rightarrow> RuntimeError (message s))"

record synthesis =
  audioContent :: pystr
  mimeType :: pystr
  timings :: pyval

text \<open>
  The two paths in the scratch directory and the request written to the engine
  (lines 53 to 58 of the source).
\<close>

definition out_wav_path :: "pystr \<Rightarrow> pystr" where
  "out_wav_path tmpdir = joinpath tmpdir (ustr ''output.wav'')"

definition timings_json_path :: "pystr \<Rightarrow> pystr" where
  "timings_json_path tmpdir = joinpath tmpdir (ustr ''timings.json'')"

definition make_request :: "pystr \<Rightarrow> pystr \<Rightarrow> pyval" where
  "make_request text tmpdir =
     PDict [(ustr ''text'', PStr text), (ustr ''output_file'', PStr (out_wav_path tmpdir))]"

text \<open>
  The operations on the file system that the wrapper itself performs, in the order in
  which it performs them. What the engine and the probe do is not among them.
\<close>

datatype fsop = MakeTempDir pystr | PathExists pystr | ReadFile pystr | RemoveTree pystr

text \<open>\<open>Path(p).exists()\<close> and \<open>Path(p).read_bytes()\<close>, \<open>Path(p).read_text()\<close>.\<close>

definition stat_exists :: "env \<Rightarrow> filesystem \<Rightarrow> pystr \<Rightarrow> pyexc + bool" where
  "stat_exists e f p =
     (case stat_error e p of Some exc \<Rightarrow> Inl exc | None \<Rightarrow> Inr (path_exists f p))"

definition read_file :: "env \<Rightarrow> filesystem \<Rightarrow> pystr \<Rightarrow> pyexc + bytes" where
  "read_file e f p =
     (case stat_error e p of Some exc \<Rightarrow> Inl exc | None \<Rightarrow> read_bytes f p)"

text \<open>
  Lines 90 to 104: the timings are read from the sidecar file when it exists and
  estimated otherwise.
\<close>

definition load_timings ::
  "env \<Rightarrow> pystr \<Rightarrow> pystr \<Rightarrow> filesystem \<Rightarrow> (pyexc + pyval) \<times> fsop list" where
  "load_timings e text tmpdir f2 =
     (case stat_exists e f2 (timings_json_path tmpdir) of
        Inl exc \<Rightarrow> (Inl exc, [PathExists (timings_json_path tmpdir)])
      | Inr found \<Rightarrow>
          if found then
            ((case read_file e f2 (timings_json_path tmpdir) of
                Inl exc \<Rightarrow> Inl exc
              | Inr content \<Rightarrow> json_loads e content),
             [PathExists (timings_json_path tmpdir), ReadFile (timings_json_path tmpdir)])
          else (Inr (fallback_timings text), [PathExists (timings_json_path tmpdir)]))"

text \<open>
  Lines 90 to 114: the timings, then the audio file read and encoded, and the result.
\<close>

definition finish ::
  "env \<Rightarrow> pystr \<Rightarrow> pystr \<Rightarrow> filesystem \<Rightarrow> (pyexc + synthesis) \<times> fsop list" where
  "finish e text tmpdir f2 =
     (case load_timings e text tmpdir f2 of
        (Inl exc, ops) \<Rightarrow> (Inl exc, ops)
      | (Inr tm, ops) \<Rightarrow>
          (case read_file e f2 (out_wav_path tmpdir) of
             Inl exc \<Rightarrow> (Inl exc, ops @ [ReadFile (out_wav_path tmpdir)])
           | Inr audio \<Rightarrow>
               (Inr \<lparr>audioContent = b64encode audio,
                     mimeType = ustr ''audio/wav'',
                     timings = tm\<rparr>,
                ops @ [ReadFile (out_wav_path tmpdir)])))"

text \<open>
  The body of the \<open>with\<close> block of \<open>synthesize\<close>, on the file system \<open>f1\<close> that holds the
  fresh directory \<open>tmpdir\<close>. It returns the result or the exception, the file system it
  leaves, and its operations. In \<open>resp_path and not Path(resp_path).exists()\<close> the path is
  looked up only when it is not empty.
\<close>

definition with_body ::
  "env \<Rightarrow> popen \<Rightarrow> pystr \<Rightarrow> pystr \<Rightarrow> filesystem \<Rightarrow>
     (pyexc + synthesis) \<times> filesystem \<times> fsop list" where
  "with_body e p text tmpdir f1 =
     (case write_error e of
        Some exc \<Rightarrow>
          if broken_pipe exc then
            (Inl (stderr_failure p (\<lambda>s. ustr ''Piper pipe broken: '' @ strip s)), f1, [])
          else (Inl exc, f1, [])
      | None \<Rightarrow>
        (let f2 = engine e (make_request text tmpdir) f1
         in case response e (make_request text tmpdir) of
              Inl exc \<Rightarrow>
                if broken_pipe exc then
                  (Inl (stderr_failure p (\<lambda>s. ustr ''Piper pipe broken: '' @ strip s)), f2, [])
                else (Inl exc, f2, [])
            | Inr response_line \<Rightarrow>
                if response_line = [] then
                  (Inl (stderr_failure p (\<lambda>s. ustr ''Piper failed: '' @ s)), f2, [])
                else
                  (let resp_path = strip response_line
                   in if resp_path = [] then
                        (case finish e text tmpdir f2 of (r, ops) \<Rightarrow> (r, f2, ops))
                      else
                        (case stat_exists e f2 resp_path of
                           Inl exc \<Rightarrow> (Inl exc, f2, [PathExists resp_path])
                         | Inr found \<Rightarrow>
                             if \<not> found then
                               (Inl (RuntimeError (ustr ''Piper error: '' @ resp_path)), f2,
                                [PathExists resp_path])
                             else
                               (case finish e text tmpdir f2 of
                                  (r, ops) \<Rightarrow> (r, f2, PathExists resp_path # ops))))))"

text \<open>
  \<open>synthesize\<close>: the three checks, then the \<open>with\<close> block between the creation and the
  removal of the scratch directory. \<open>synthesize_run\<close> is the whole call: what it returns or
  raises, the file system after it, and its operations on the file system.
  \<open>synthesize\<close> is the first two of these and \<open>synthesize_ops\<close> the third.
\<close>

definition synthesize_run ::
  "manager \<Rightarrow> pystr \<Rightarrow> env \<Rightarrow> (pyexc + synthesis) \<times> filesystem \<times> fsop list" where
  "synthesize_run self text e =
     (case process self of
        None \<Rightarrow>
          (case get_error_message self e of
             Inl exc \<Rightarrow> (Inl exc, fs e, [])
           | Inr msg \<Rightarrow> (Inl (RuntimeError msg), fs e, []))
      | Some p \<Rightarrow>
          if returncode p \<noteq> None then
            (Inl (stderr_failure p (\<lambda>s. ustr ''Piper terminated: '' @ strip s)), fs e, [])
          else if \<not> stdin p \<or> \<not> stdout p then
            (Inl (RuntimeError (ustr ''Piper process not started correctly'')), fs e, [])
          else
            (let tmpdir = tmp_name e;
                 (r, f2, ops) = with_body e p text tmpdir (mkdtemp tmpdir (fs e))
             in (r, rmtree tmpdir f2, [MakeTempDir tmpdir] @ ops @ [RemoveTree tmpdir])))"

definition synthesize :: "manager \<Rightarrow> pystr \<Rightarrow> env \<Rightarrow> (pyexc + synthesis) \<times> filesystem" where
  "synthesize self text e = (case synthesize_run self text e of (r, f, ops) \<Rightarrow> (r, f))"

definition synthesize_ops :: "manager \<Rightarrow> pystr \<Rightarrow> env \<Rightarrow> fsop list" where
  "synthesize_ops self text e = (case synthesize_run self text e of (r, f, ops) \<Rightarrow> ops)"

text \<open>
  \<open>terminate\<close>: \<open>self.process.poll()\<close> on \<open>None\<close> raises \<open>AttributeError\<close>. The result is the
  wrapper with the process as \<open>wait\<close> leaves it.
\<close>

definition none_has_no_poll :: pystr where
  "none_has_no_poll =
     [39] @ ustr ''NoneType'' @ [39] @ ustr '' object has no attribute '' @ [39] @ ustr ''poll'' @ [39]"

definition terminate :: "manager \<Rightarrow> env \<Rightarrow> pyexc + manager" where
  "terminate self e =
     (case process self of
        None \<Rightarrow> Inl (AttributeError none_has_no_poll)
      | Some p \<Rightarrow>
          if returncode p = None then
            (case wait_result e of
               None \<Rightarrow> Inl TimeoutExpired
             | Some rc \<Rightarrow> Inr (self\<lparr>process := Some (p\<lparr>returncode := Some rc\<rparr>)\<rparr>))
          else Inr self)"

section \<open>Reading a timing entry\<close>

text \<open>
  \<open>dict_get k v\<close> is \<open>v[k]\<close> when \<open>v\<close> is a dictionary that has the key. \<open>seconds\<close> is the
  number a JSON value stands for. An entry's interval is in order when both times are
  numbers and the start lies strictly before the end.
\<close>

definition dict_get :: "pystr \<Rightarrow> pyval \<Rightarrow> pyval option" where
  "dict_get k v = (case v of PDict kvs \<Rightarrow> map_of kvs k | _ \<Rightarrow> None)"

definition seconds :: "pyval \<Rightarrow> rat option" where
  "seconds v =
     (case v of PInt i \<Rightarrow> Some (of_int i) | PFloat (Finite x) \<Rightarrow> Some x | _ \<Rightarrow> None)"

definition start_time :: "pyval \<Rightarrow> rat option" where
  "start_time entry = Option.bind (dict_get (ustr ''startTime'') entry) seconds"

definition end_time :: "pyval \<Rightarrow> rat option" where
  "end_time entry = Option.bind (dict_get (ustr ''endTime'') entry) seconds"

definition entry_word :: "pyval \<Rightarrow> pystr option" where
  "entry_word entry =
     (case dict_get (ustr ''word'') entry of Some (PStr w) \<Rightarrow> Some w | _ \<Rightarrow> None)"

definition interval_ok :: "pyval \<Rightarrow> bool" where
  "interval_ok entry \<longleftrightarrow>
     (case (start_time entry, end_time entry) of (Some s, Some t) \<Rightarrow> s < t | _ \<Rightarrow> False)"

definition entries :: "pyval \<Rightarrow> pyval list" where
  "entries v = (case v of PList xs \<Rightarrow> xs | _ \<Rightarrow> [])"

text \<open>The file system at the moment the engine has answered the request of a call.\<close>

definition answered_fs :: "env \<Rightarrow> pystr \<Rightarrow> filesystem" where
  "answered_fs e text =
     engine e (make_request text (tmp_name e)) (mkdtemp (tmp_name e) (fs e))"

text \<open>
  \<open>ready\<close>: the wrapper passes the three checks of \<open>synthesize\<close>. \<open>served\<close>: moreover the
  request is written, the engine answers with a line that is blank or names something
  that exists, the operating system can look the sidecar path up, and the audio file
  holds the bytes \<open>audio\<close>.
\<close>

definition ready :: "manager \<Rightarrow> bool" where
  "ready self \<longleftrightarrow>
     (case process self of
        None \<Rightarrow> False
      | Some p \<Rightarrow> returncode p = None \<and> stdin p \<and> stdout p)"

definition served :: "manager \<Rightarrow> pystr \<Rightarrow> env \<Rightarrow> bytes \<Rightarrow> bool" where
  "served self text e audio \<longleftrightarrow>
     ready self \<and> write_error e = None \<and>
     (case response e (make_request text (tmp_name e)) of
        Inl exc \<Rightarrow> False
      | Inr line \<Rightarrow>
          line \<noteq> [] \<and>
          (strip line = [] \<or> stat_exists e (answered_fs e text) (strip line) = Inr True)) \<and>
     stat_error e (timings_json_path (tmp_name e)) = None \<and>
     read_file e (answered_fs e text) (out_wav_path (tmp_name e)) = Inr audio"

section \<open>Stub engines\<close>

text \<open>
  A running engine and a wrapper on it, and a wrapper whose executable was not found.
  The stub engine writes four bytes to the requested output file and answers with its
  path; \<open>stub_env\<close> has no sidecar file, and its file system holds the current directory.
\<close>

definition running :: popen where
  "running = \<lparr>returncode = None, stdin = True, stdout = True, stderr = Some (Inr [])\<rparr>"

definition piper :: manager where
  "piper = \<lparr>executable = ustr ''piper'', process = Some running\<rparr>"

definition absent :: manager where
  "absent = \<lparr>executable = ustr ''piper'', process = None\<rparr>"

definition silence :: bytes where
  "silence = [82, 73, 70, 70]"

definition stub_engine :: "pyval \<Rightarrow> filesystem \<Rightarrow> filesystem" where
  "stub_engine request f =
     (case dict_get (ustr ''output_file'') request of
        Some (PStr out) \<Rightarrow> f(out \<mapsto> File silence)
      | _ \<Rightarrow> f)"

definition echo_path :: "pyval \<Rightarrow> pyexc + pystr" where
  "echo_path request =
     (case dict_get (ustr ''output_file'') request of
        Some (PStr out) \<Rightarrow> Inr (out @ [10])
      | _ \<Rightarrow> Inr [])"

definition not_found_text :: pystr where
  "not_found_text = errno_text ''[Errno 2] No such file or directory: '' (ustr ''piper'')"

definition stub_env :: env where
  "stub_env =
     \<lparr>fs = Map.empty([] \<mapsto> Dir),
      tmp_name = ustr ''/tmp/tmpq1'',
      stat_error = (\<lambda>_. None),
      write_error = None,
      engine = stub_engine,
      response = echo_path,
      json_loads = (\<lambda>_. Inl (JSONDecodeError (ustr ''Expecting value''))),
      subprocess_run = (\<lambda>_. Inl (FileNotFoundError not_found_text)),
      which = (\<lambda>_. Some (ustr ''/usr/bin/piper'')),
      spawn = (\<lambda>_. Inr running),
      wait_result = Some 0\<rparr>"

text \<open>
  An engine that also leaves a sidecar file whose one entry ends before it starts. The
  file holds \<open>[{"word": "a", "startTime": 1, "endTime": 0}]\<close>, and \<open>sidecar_loads\<close> is
  \<open>json.loads\<close> on that text.
\<close>

definition quoted :: "string \<Rightarrow> pystr" where
  "quoted s = [34] @ ustr s @ [34]"

definition sidecar_text :: bytes where
  "sidecar_text =
     ustr ''[{'' @ quoted ''word'' @ ustr '': '' @ quoted ''a'' @ ustr '', ''
       @ quoted ''startTime'' @ ustr '': 1, '' @ quoted ''endTime'' @ ustr '': 0}]''"

definition sidecar_value :: pyval where
  "sidecar_value =
     PList [PDict [(ustr ''word'', PStr (ustr ''a'')),
                   (ustr ''startTime'', PInt 1),
                   (ustr ''endTime'', PInt 0)]]"

definition sidecar_loads :: "bytes \<Rightarrow> pyexc + pyval" where
  "sidecar_loads b =
     (if b = sidecar_text then Inr sidecar_value
      else Inl (JSONDecodeError (ustr ''Expecting value'')))"

definition sidecar_env :: env where
  "sidecar_env =
     stub_env
       \<lparr>engine := (\<lambda>request f.
           (stub_engine request f)(timings_json_path (ustr ''/tmp/tmpq1'') \<mapsto> File sidecar_text)),
        json_loads := sidecar_loads\<rparr>"

text \<open>
  An engine that has exited with a message on its diagnostic stream (and has no input
  stream either), one that has exited with bytes there that are not text, and one that
  runs but was started without an output stream.
\<close>

definition crashed :: popen where
  "crashed = \<lparr>returncode = Some 1, stdin = False, stdout = True,
               stderr = Some (Inr (ustr ''bad model'' @ [10]))\<rparr>"

definition decode_error_text :: pystr where
  "decode_error_text =
     [39] @ ustr ''utf-8'' @ [39] @ ustr '' codec can'' @ [39]
       @ ustr ''t decode byte 0xff in position 0: invalid start byte''"

definition garbled :: popen where
  "garbled = \<lparr>returncode = Some 1, stdin = True, stdout = True,
               stderr = Some (Inl (UnicodeDecodeError decode_error_text))\<rparr>"

definition half_open :: popen where
  "half_open = \<lparr>returncode = None, stdin = True, stdout = False, stderr = None\<rparr>"

text \<open>
  Variations: the stub engine answers with an empty line, with an error text instead of
  a path, or with a path in a directory that may not be searched; the executable, not
  found when the wrapper was built, answers \<open>--version\<close> on its diagnostic stream, once
  with its version and once with the words of another failure; and an executable name
  with a NUL in it, which \<open>shutil.which\<close> does not find and \<open>subprocess.run\<close> refuses.
\<close>

definition blank_env :: env where
  "blank_env = stub_env\<lparr>response := (\<lambda>_. Inr [10])\<rparr>"

definition refusing_env :: env where
  "refusing_env = stub_env\<lparr>response := (\<lambda>_. Inr (ustr ''ERROR: bad model'' @ [10]))\<rparr>"

definition version_env :: env where
  "version_env = stub_env\<lparr>subprocess_run := (\<lambda>_. Inr ([], ustr ''piper 1.2.0'' @ [10]))\<rparr>"

definition denied_env :: env where
  "denied_env =
     stub_env
       \<lparr>response := (\<lambda>_. Inr (ustr ''/root/out.wav'' @ [10])),
        stat_error := (\<lambda>p. if p = ustr ''/root/out.wav''
           then Some (OSError (errno_text ''[Errno 13] Permission denied: '' p)) else None)\<rparr>"

definition mimic_env :: env where
  "mimic_env =
     stub_env\<lparr>subprocess_run :=
       (\<lambda>_. Inr ([], ustr ''Piper process not started correctly'' @ [10]))\<rparr>"

definition nul_name :: pystr where
  "nul_name = ustr ''pi'' @ [0] @ ustr ''per''"

definition nul_env :: env where
  "nul_env =
     stub_env
       \<lparr>which := (\<lambda>_. None),
        subprocess_run := (\<lambda>_. Inl (ValueError (ustr ''embedded null byte'')))\<rparr>"

section \<open>Rounding\<close>

text \<open>
  \<open>bit_length\<close> is the position of the leading bit, and rounding to 53 bits moves a
  number by at most half a unit in the last place.
\<close>

lemma bit_length_upper: "n < 2 ^ bit_length n"
proof (induction n rule: bit_length.induct)
  case (1 n)
  show ?case
  proof (cases "n = 0")
    case True
    then show ?thesis by (simp add: bit_length.simps)
  next
    case False
    with 1 have "n div 2 < 2 ^ bit_length (n div 2)" by simp
    then have "n < 2 * 2 ^ bit_length (n div 2)" by linarith
    with False show ?thesis by (simp add: bit_length.simps [of n])
  qed
qed

lemma bit_length_lower: "n \<noteq> 0 \<Longrightarrow> 2 ^ (bit_length n - 1) \<le> n"
proof (induction n rule: bit_length.induct)
  case (1 n)
  show ?case
  proof (cases "n div 2 = 0")
    case True
    with 1(2) have "n = 1" by linarith
    then show ?thesis by (simp add: bit_length.simps)
  next
    case False
    with 1 have ih: "2 ^ (bit_length (n div 2) - 1) \<le> n div 2" by simp
    from False have pos: "bit_length (n div 2) \<noteq> 0" by (simp add: bit_length.simps [of "n div 2"])
    have "bit_length n = Suc (bit_length (n div 2))" using 1(2) by (simp add: bit_length.simps [of n])
    then have "(2::nat) ^ (bit_length n - 1) = 2 * 2 ^ (bit_length (n div 2) - 1)"
      using pos by (cases "bit_length (n div 2)") simp_all
    with ih show ?thesis by linarith
  qed
qed

lemma bit_length_le: "n < 2 ^ k \<Longrightarrow> bit_length n \<le> k"
proof (cases "n = 0")
  case True
  then show ?thesis by (simp add: bit_length.simps)
next
  case False
  assume "n < 2 ^ k"
  with bit_length_lower [OF False] have "(2::nat) ^ (bit_length n - 1) < 2 ^ k" by linarith
  then have "bit_length n - 1 < k" by simp
  then show ?thesis by linarith
qed

lemma bit_length_ge: "2 ^ k \<le> n \<Longrightarrow> k < bit_length n"
proof -
  assume "2 ^ k \<le> n"
  with bit_length_upper [of n] have "(2::nat) ^ k < 2 ^ bit_length n" by linarith
  then show ?thesis by simp
qed

lemma rne53_error:
  assumes "2 ^ 53 \<le> x"
  shows "x \<le> rne53 x + 2 ^ (bit_length x - 54) \<and> rne53 x \<le> x + 2 ^ (bit_length x - 54)"
proof -
  define sh where "sh = bit_length x - 53"
  define q where "q = x div 2 ^ sh"
  define r where "r = x mod 2 ^ sh"
  define half :: nat where "half = 2 ^ (sh - 1)"
  from assms have "53 < bit_length x" by (rule bit_length_ge)
  then have sh: "0 < sh" and h: "bit_length x - 54 = sh - 1" by (simp_all add: sh_def)
  then have two: "(2::nat) ^ sh = 2 * half" by (cases sh) (simp_all add: half_def)
  have "x = q * 2 ^ sh + r" unfolding q_def r_def by (rule div_mult_mod_eq [symmetric])
  then have x: "x = q * (2 * half) + r" by (simp only: two)
  have "r < 2 ^ sh" unfolding r_def by (rule mod_less_divisor) simp
  then have r: "r < 2 * half" by (simp only: two)
  have "rne53 x = (if r < half then q * 2 ^ sh
              else if half < r then (q + 1) * 2 ^ sh
              else if even q then q * 2 ^ sh
              else (q + 1) * 2 ^ sh)"
    using assms by (simp add: rne53_def Let_def sh_def q_def r_def half_def)
  then have rn: "rne53 x = (if r < half then q * (2 * half)
              else if half < r then (q + 1) * (2 * half)
              else if even q then q * (2 * half)
              else (q + 1) * (2 * half))"
    by (simp only: two)
  define y where "y = rne53 x"
  have "x \<le> y + half \<and> y \<le> x + half"
  proof (cases "r < half")
    case True
    with rn have "y = q * (2 * half)" by (simp add: y_def)
    with x True show ?thesis by simp
  next
    case False
    show ?thesis
    proof (cases "half < r")
      case True
      with False rn have "y = q * (2 * half) + 2 * half" by (simp add: y_def)
      with x True r show ?thesis by simp
    next
      case False
      with \<open>\<not> r < half\<close> have rh: "r = half" by simp
      with rn have "y = q * (2 * half) \<or> y = q * (2 * half) + 2 * half"
        by (simp add: y_def)
      with x rh show ?thesis by auto
    qed
  qed
  then show ?thesis by (simp add: h half_def y_def)
qed

lemma rne53_exact: "x < 2 ^ 53 \<Longrightarrow> rne53 x = x"
  by (simp add: rne53_def)

lemma rne53_relative:
  "(int (rne53 x) - int x) * 2 ^ 53 \<le> int x \<and> (int x - int (rne53 x)) * 2 ^ 53 \<le> int x"
proof (cases "x < 2 ^ 53")
  case True
  then show ?thesis by (simp add: rne53_exact)
next
  case False
  then have big: "2 ^ 53 \<le> x" by simp
  then have "53 < bit_length x" by (rule bit_length_ge)
  then have e: "bit_length x - 1 = (bit_length x - 54) + 53" by simp
  have "x \<noteq> 0" using big by auto
  have "(2::nat) ^ (bit_length x - 1) = 2 ^ (bit_length x - 54) * 2 ^ 53"
    by (simp only: e power_add)
  with bit_length_lower [OF \<open>x \<noteq> 0\<close>] have "(2::nat) ^ (bit_length x - 54) * 2 ^ 53 \<le> x"
    by simp
  then have "int (2 ^ (bit_length x - 54)) * 2 ^ 53 \<le> int x"
    by (metis of_nat_le_iff of_nat_mult of_nat_numeral of_nat_power)
  moreover from rne53_error [OF big]
  have "int (rne53 x) - int x \<le> int (2 ^ (bit_length x - 54))"
    and "int x - int (rne53 x) \<le> int (2 ^ (bit_length x - 54))" by linarith+
  ultimately show ?thesis
    by (smt (verit) mult_right_mono zero_le_numeral zero_le_power)
qed

lemma rne53_near:
  assumes "x < 2 ^ 106"
  shows "x \<le> rne53 x + 2 ^ 52"
proof (cases "x < 2 ^ 53")
  case True
  then show ?thesis by (simp add: rne53_exact)
next
  case False
  then have big: "2 ^ 53 \<le> x" by simp
  from assms have "bit_length x \<le> 106" by (rule bit_length_le)
  then have "bit_length x - 54 \<le> 52" by simp
  then have "(2::nat) ^ (bit_length x - 54) \<le> 2 ^ 52" by (rule power_increasing) simp
  with rne53_error [OF big] show ?thesis by linarith
qed

text \<open>
  The value of \<open>start\<close> after \<open>k\<close> rounds is at most \<open>2 * c02 * k\<close> for the first \<open>2^52\<close>
  rounds, and in that range adding \<open>0.2\<close> moves it up.
\<close>

lemma c02_bounds: "2 ^ 52 < c02" "c02 < 2 ^ 53"
  by (simp_all add: c02_def)

lemma fadd_upper: "fadd s c02 * 2 ^ 53 \<le> (s + c02) * (2 ^ 53 + 1)"
proof -
  from rne53_relative [of "s + c02"]
  have "(int (fadd s c02) - int (s + c02)) * 2 ^ 53 \<le> int (s + c02)"
    by (simp add: fadd_def)
  then have "int (fadd s c02) * 2 ^ 53 \<le> int (s + c02) * (2 ^ 53 + 1)"
    by (simp add: algebra_simps)
  then have "int (fadd s c02 * 2 ^ 53) \<le> int ((s + c02) * (2 ^ 53 + 1))"
    by simp
  then show ?thesis by (simp only: of_nat_le_iff)
qed

lemma start_bound:
  "k \<le> 2 ^ 52 \<Longrightarrow> ((\<lambda>s. fadd s c02) ^^ k) 0 \<le> 2 * c02 * k"
proof (induction k)
  case 0
  then show ?case by simp
next
  case (Suc k)
  define s where "s = ((\<lambda>s. fadd s c02) ^^ k) 0"
  from Suc have ih: "s \<le> 2 * c02 * k" and k: "2 * k + 1 < 2 ^ 53" by (simp_all add: s_def)
  have "fadd s c02 * 2 ^ 53 \<le> (s + c02) * (2 ^ 53 + 1)" by (rule fadd_upper)
  also have "\<dots> \<le> (2 * c02 * k + c02) * (2 ^ 53 + 1)"
    using ih by (intro mult_right_mono) simp_all
  also have "\<dots> = c02 * (2 * k + 1) * 2 ^ 53 + c02 * (2 * k + 1)"
    by (simp add: algebra_simps)
  also have "\<dots> \<le> c02 * (2 * k + 1) * 2 ^ 53 + c02 * 2 ^ 53"
    using k by (intro add_left_mono mult_left_mono) simp_all
  also have "\<dots> = (2 * c02 * Suc k) * 2 ^ 53"
    by (simp add: algebra_simps)
  finally have "fadd s c02 \<le> 2 * c02 * Suc k" by simp
  then show ?case by (simp add: s_def)
qed

lemma fadd_increases:
  assumes "s \<le> 2 * c02 * k" and "k < 2 ^ 52"
  shows "s < fadd s c02"
proof -
  have "s + c02 \<le> c02 * (2 * k + 1)" using assms(1) by (simp add: algebra_simps)
  also have "\<dots> < 2 ^ 53 * 2 ^ 53"
    using assms(2) c02_bounds(2) by (intro mult_strict_mono) simp_all
  finally have "s + c02 < 2 ^ 106" by simp
  then have "s + c02 \<le> fadd s c02 + 2 ^ 52" unfolding fadd_def by (rule rne53_near)
  with c02_bounds(1) show ?thesis by linarith
qed

section \<open>The loop, entry by entry\<close>

lemma fallback_loop_acc: "fallback_loop ws s acc = acc @ fallback_loop ws s []"
proof (induction ws arbitrary: s acc)
  case Nil
  then show ?case by simp
next
  case (Cons w ws)
  define e where "e = PDict [(ustr ''word'', PStr w),
            (ustr ''startTime'', PFloat (Finite (dbl s))),
            (ustr ''endTime'', PFloat (Finite (dbl (fadd s c02))))]"
  have "fallback_loop (w # ws) s acc = fallback_loop ws (fadd s c02) (acc @ [e])"
    by (simp add: e_def)
  also have "\<dots> = (acc @ [e]) @ fallback_loop ws (fadd s c02) []"
    by (rule Cons.IH)
  also have "\<dots> = acc @ ([e] @ fallback_loop ws (fadd s c02) [])"
    by simp
  also have "[e] @ fallback_loop ws (fadd s c02) [] = fallback_loop ws (fadd s c02) [e]"
    by (rule Cons.IH [symmetric])
  also have "fallback_loop ws (fadd s c02) [e] = fallback_loop (w # ws) s []"
    by (simp add: e_def)
  finally show ?case .
qed

lemma fallback_loop_Cons:
  "fallback_loop (w # ws) s [] =
     PDict [(ustr ''word'', PStr w),
            (ustr ''startTime'', PFloat (Finite (dbl s))),
            (ustr ''endTime'', PFloat (Finite (dbl (fadd s c02))))]
     # fallback_loop ws (fadd s c02) []"
  using fallback_loop_acc [of ws "fadd s c02" "[_]"] by simp

declare fallback_loop.simps(2) [simp del]

lemma length_fallback_loop: "length (fallback_loop ws s []) = length ws"
  by (induction ws arbitrary: s) (simp_all add: fallback_loop_Cons)

lemma funpow_fadd_shift:
  "((\<lambda>x. fadd x c02) ^^ j) (fadd s c02) = fadd (((\<lambda>x. fadd x c02) ^^ j) s) c02"
  using funpow_swap1 [of "\<lambda>x. fadd x c02" j s] by simp

lemma fallback_loop_nth:
  "i < length ws \<Longrightarrow>
   fallback_loop ws s [] ! i =
     PDict [(ustr ''word'', PStr (ws ! i)),
            (ustr ''startTime'', PFloat (Finite (dbl (((\<lambda>x. fadd x c02) ^^ i) s)))),
            (ustr ''endTime'', PFloat (Finite (dbl (fadd (((\<lambda>x. fadd x c02) ^^ i) s) c02))))]"
proof (induction ws arbitrary: s i)
  case Nil
  then show ?case by simp
next
  case (Cons w ws)
  show ?case
  proof (cases i)
    case 0
    then show ?thesis by (simp add: fallback_loop_Cons)
  next
    case (Suc j)
    with Cons.prems have "j < length ws" by simp
    from Cons.IH [OF this, of "fadd s c02"] Suc show ?thesis
      by (simp add: fallback_loop_Cons funpow_fadd_shift)
  qed
qed

lemma keys_distinct:
  "ustr ''word'' \<noteq> ustr ''startTime''" "ustr ''word'' \<noteq> ustr ''endTime''"
  "ustr ''startTime'' \<noteq> ustr ''endTime''"
  by (simp_all add: ustr_def)

lemma entry_fields:
  fixes w k t
  defines "entry \<equiv> PDict [(ustr ''word'', PStr w),
            (ustr ''startTime'', PFloat (Finite (dbl k))),
            (ustr ''endTime'', PFloat (Finite (dbl t)))]"
  shows "entry_word entry = Some w" "start_time entry = Some (dbl k)" "end_time entry = Some (dbl t)"
  using keys_distinct
  by (auto simp add: entry_def entry_word_def start_time_def end_time_def dict_get_def seconds_def)

lemma dbl_less: "dbl a < dbl b \<longleftrightarrow> a < b"
  by (simp add: dbl_def divide_less_cancel)

lemma dbl_eq: "dbl a = dbl b \<longleftrightarrow> a = b"
  by (simp add: dbl_def)

lemma fallback_words: "map entry_word (fallback_loop ws s []) = map Some ws"
  by (induction ws arbitrary: s) (simp_all add: fallback_loop_Cons entry_fields)

lemma dbl_fadd_close:
  "\<bar>dbl (fadd s c02) - dbl s - dbl c02\<bar> \<le> (dbl s + dbl c02) / 2 ^ 53"
proof -
  define x where "x = s + c02"
  define y where "y = fadd s c02"
  from rne53_relative [of x]
  have "(int y - int x) * 2 ^ 53 \<le> int x" "(int x - int y) * 2 ^ 53 \<le> int x"
    by (simp_all add: y_def x_def fadd_def)
  then have "\<bar>int y - int x\<bar> * 2 ^ 53 \<le> int x"
    by (cases "int x \<le> int y") simp_all
  then have "(of_int (\<bar>int y - int x\<bar> * 2 ^ 53) :: rat) \<le> of_int (int x)"
    by (simp only: of_int_le_iff)
  then have "\<bar>(of_nat y :: rat) - of_nat x\<bar> * 2 ^ 53 \<le> of_nat x"
    by simp
  then have "\<bar>(of_nat y :: rat) - of_nat x\<bar> \<le> of_nat x / 2 ^ 53"
    by (simp add: pos_le_divide_eq)
  then have A: "\<bar>(of_nat y :: rat) - of_nat x\<bar> / 2 ^ 55 \<le> of_nat x / 2 ^ 53 / 2 ^ 55"
    by (rule divide_right_mono) simp
  have B: "dbl (fadd s c02) - dbl s - dbl c02 = (of_nat y - of_nat x) / 2 ^ 55"
    by (simp add: dbl_def x_def y_def field_simps)
  have C: "(dbl s + dbl c02) / 2 ^ 53 = of_nat x / 2 ^ 53 / 2 ^ 55"
    by (simp add: dbl_def x_def field_simps)
  have "\<bar>(of_nat y - of_nat x) / 2 ^ 55 :: rat\<bar> = \<bar>of_nat y - of_nat x\<bar> / 2 ^ 55"
    by simp
  with A show ?thesis by (simp only: B C)
qed

lemma first_two_exact:
  "fadd 0 c02 = c02" "fadd c02 c02 = c02 + c02"
  by (simp_all add: fadd_def c02_def rne53_def Let_def bit_length.simps)

section \<open>The paths through synthesize\<close>

text \<open>The words of \<open>split\<close> are not empty and hold no white space.\<close>

lemma split_from_words:
  "\<forall>c\<in>set cur. \<not> is_space c \<Longrightarrow> w \<in> set (split_from cur s) \<Longrightarrow>
   w \<noteq> [] \<and> (\<forall>c\<in>set w. \<not> is_space c)"
proof (induction s arbitrary: cur)
  case Nil
  then show ?case by (auto split: if_splits)
next
  case (Cons c cs)
  show ?case
  proof (cases "is_space c")
    case True
    with Cons.prems have "w = cur \<and> cur \<noteq> [] \<or> w \<in> set (split_from [] cs)"
      by (auto split: if_splits)
    then show ?thesis using Cons.prems(1) Cons.IH [of "[]"] by auto
  next
    case False
    with Cons.prems have "w \<in> set (split_from (cur @ [c]) cs)" by simp
    moreover from False Cons.prems(1) have "\<forall>a\<in>set (cur @ [c]). \<not> is_space a" by auto
    ultimately show ?thesis by (rule Cons.IH [rotated])
  qed
qed

lemma split_words: "w \<in> set (split s) \<Longrightarrow> w \<noteq> [] \<and> (\<forall>c\<in>set w. \<not> is_space c)"
  using split_from_words [of "[]" w s] by (simp add: split_def)

lemma split_from_blank: "\<forall>c\<in>set s. is_space c \<Longrightarrow> split_from [] s = []"
  by (induction s) simp_all

lemma split_blank: "\<forall>c\<in>set text. is_space c \<Longrightarrow> split text = []"
  by (simp add: split_def split_from_blank)

lemma synthesize_no_process:
  "process self = None \<Longrightarrow>
   synthesize_run self text e =
     ((case get_error_message self e of
         Inl exc \<Rightarrow> Inl exc
       | Inr msg \<Rightarrow> Inl (RuntimeError msg)), fs e, [])"
  by (simp add: synthesize_run_def split: sum.splits)

lemma synthesize_ready:
  "ready self \<Longrightarrow>
   \<exists>p. process self = Some p \<and>
     synthesize self text e =
       (fst (with_body e p text (tmp_name e) (mkdtemp (tmp_name e) (fs e))),
        rmtree (tmp_name e)
          (fst (snd (with_body e p text (tmp_name e) (mkdtemp (tmp_name e) (fs e))))))"
  by (auto simp add: ready_def synthesize_def synthesize_run_def Let_def
      split: option.splits prod.splits)

lemma load_timings_absent:
  "stat_error e (timings_json_path d) = None \<Longrightarrow> \<not> path_exists f (timings_json_path d) \<Longrightarrow>
   fst (load_timings e text d f) = Inr (fallback_timings text)"
  by (simp add: load_timings_def stat_exists_def)

lemma load_timings_present:
  "stat_error e (timings_json_path d) = None \<Longrightarrow> f (timings_json_path d) = Some (File content) \<Longrightarrow>
   fst (load_timings e text d f) = json_loads e content"
  by (simp add: load_timings_def stat_exists_def read_file_def read_bytes_def path_exists_def)

lemma load_timings_Inr:
  assumes "fst (load_timings e text d f) = Inr tm"
  shows "stat_error e (timings_json_path d) = None \<and>
     (if path_exists f (timings_json_path d)
      then \<exists>content. f (timings_json_path d) = Some (File content) \<and> json_loads e content = Inr tm
      else tm = fallback_timings text)"
  using assms
  by (auto simp add: load_timings_def stat_exists_def read_file_def read_bytes_def path_exists_def
      split: option.splits sum.splits if_splits node.splits)

lemma finish_fst:
  "fst (finish e text d f) =
     (case fst (load_timings e text d f) of
        Inl exc \<Rightarrow> Inl exc
      | Inr tm \<Rightarrow>
          (case read_file e f (out_wav_path d) of
             Inl exc \<Rightarrow> Inl exc
           | Inr audio \<Rightarrow>
               Inr \<lparr>audioContent = b64encode audio, mimeType = ustr ''audio/wav'', timings = tm\<rparr>))"
  by (simp add: finish_def split: prod.splits sum.splits)

lemma with_body_fst:
  "fst (with_body e p text d f1) =
     (case write_error e of
        Some exc \<Rightarrow>
          if broken_pipe exc
          then Inl (stderr_failure p (\<lambda>s. ustr ''Piper pipe broken: '' @ strip s))
          else Inl exc
      | None \<Rightarrow>
        (case response e (make_request text d) of
           Inl exc \<Rightarrow>
             if broken_pipe exc
             then Inl (stderr_failure p (\<lambda>s. ustr ''Piper pipe broken: '' @ strip s))
             else Inl exc
         | Inr line \<Rightarrow>
             if line = [] then Inl (stderr_failure p (\<lambda>s. ustr ''Piper failed: '' @ s))
             else if strip line = [] then fst (finish e text d (engine e (make_request text d) f1))
             else
               (case stat_exists e (engine e (make_request text d) f1) (strip line) of
                  Inl exc \<Rightarrow> Inl exc
                | Inr found \<Rightarrow>
                    if found then fst (finish e text d (engine e (make_request text d) f1))
                    else Inl (RuntimeError (ustr ''Piper error: '' @ strip line)))))"
  by (simp add: with_body_def Let_def split: option.splits sum.splits prod.splits)

lemma synthesize_served:
  assumes "served self text e audio"
  shows "fst (synthesize self text e) =
     (case fst (load_timings e text (tmp_name e) (answered_fs e text)) of
        Inl exc \<Rightarrow> Inl exc
      | Inr tm \<Rightarrow> Inr \<lparr>audioContent = b64encode audio, mimeType = ustr ''audio/wav'', timings = tm\<rparr>)"
proof -
  from assms have r: "ready self" by (simp add: served_def)
  from synthesize_ready [OF r, of "text" e] obtain p where
    "fst (synthesize self text e) = fst (with_body e p text (tmp_name e) (mkdtemp (tmp_name e) (fs e)))"
    by auto
  with assms show ?thesis
    by (auto simp add: served_def with_body_fst finish_fst answered_fs_def
        split: option.splits sum.splits)
qed

lemma synthesize_Inr:
  assumes "fst (synthesize self text e) = Inr r"
  shows "\<exists>audio. served self text e audio \<and>
           fst (load_timings e text (tmp_name e) (answered_fs e text)) = Inr (timings r) \<and>
           audioContent r = b64encode audio \<and> mimeType r = ustr ''audio/wav''"
proof -
  have rdy: "ready self"
    using assms
    by (auto simp add: synthesize_def synthesize_run_def ready_def
        split: option.splits sum.splits if_splits prod.splits)
  from synthesize_ready [OF rdy, of "text" e] obtain p where
    "fst (synthesize self text e) = fst (with_body e p text (tmp_name e) (mkdtemp (tmp_name e) (fs e)))"
    by auto
  with assms have w: "fst (with_body e p text (tmp_name e) (mkdtemp (tmp_name e) (fs e))) = Inr r"
    by simp
  then show ?thesis
    using rdy
    by (auto simp add: with_body_fst finish_fst served_def answered_fs_def
        dest: load_timings_Inr split: option.splits sum.splits if_splits)
qed


section \<open>Evaluation of the stub engines\<close>

lemmas scenario_defs =
  stub_env_def sidecar_env_def blank_env_def refusing_env_def version_env_def denied_env_def
  mimic_env_def nul_env_def nul_name_def not_found_text_def
  stub_engine_def echo_path_def piper_def absent_def running_def crashed_def half_open_def
  garbled_def decode_error_text_def
  silence_def sidecar_loads_def sidecar_text_def sidecar_value_def quoted_def

lemmas run_defs =
  synthesize_def synthesize_ops_def synthesize_run_def with_body_def finish_def load_timings_def
  stat_exists_def read_file_def read_bytes_def path_exists_def
  mkdtemp_def rmtree_def under_def make_request_def out_wav_path_def timings_json_path_def
  joinpath_def dict_get_def ustr_def strip_def is_space_def read_stderr_def stderr_failure_def
  broken_pipe_def get_error_message_def os_error_text_def errno_text_def answered_fs_def served_def ready_def
  Let_def

lemma rmtree_under: "under d q \<Longrightarrow> rmtree d f q = None"
  by (simp add: rmtree_def)

lemma rmtree_outside: "\<not> under d q \<Longrightarrow> rmtree d f q = f q"
  by (simp add: rmtree_def)

lemma strip_Nil: "strip [] = []"
  by (simp add: strip_def)

text \<open>The operations of a call that the stub engine serves.\<close>

lemma served_call_operations:
  "synthesize_ops piper (ustr ''hi'') stub_env =
     [MakeTempDir (ustr ''/tmp/tmpq1''),
      PathExists (ustr ''/tmp/tmpq1/output.wav''),
      PathExists (ustr ''/tmp/tmpq1/timings.json''),
      ReadFile (ustr ''/tmp/tmpq1/output.wav''),
      RemoveTree (ustr ''/tmp/tmpq1'')]"
  by (simp add: scenario_defs run_defs)

section \<open>Properties of the estimate\<close>

lemma dbl_add: "dbl (a + b) = dbl a + dbl b"
  by (simp add: dbl_def add_divide_distrib)

lemma dbl_zero: "dbl 0 = 0"
  by (simp add: dbl_def)

lemma start_small:
  "i < 2 \<Longrightarrow> fadd (((\<lambda>x. fadd x c02) ^^ i) 0) c02 = ((\<lambda>x. fadd x c02) ^^ i) 0 + c02"
proof -
  assume "i < 2"
  then have "i = 0 \<or> i = 1" by auto
  then show ?thesis by (auto simp add: first_two_exact)
qed

lemma fallback_entry_times:
  assumes "i < length ws"
  shows "start_time (fallback_loop ws 0 [] ! i) = Some (dbl (((\<lambda>x. fadd x c02) ^^ i) 0))"
    and "end_time (fallback_loop ws 0 [] ! i) = Some (dbl (fadd (((\<lambda>x. fadd x c02) ^^ i) 0) c02))"
  by (simp_all add: fallback_loop_nth [OF assms] entry_fields)

lemma fallback_entry_ordered:
  assumes "i < length ws" and "length ws \<le> 2 ^ 52"
  shows "((\<lambda>x. fadd x c02) ^^ i) 0 < fadd (((\<lambda>x. fadd x c02) ^^ i) 0) c02"
proof -
  from assms have i: "i < 2 ^ 52" by simp
  then have "((\<lambda>x. fadd x c02) ^^ i) 0 \<le> 2 * c02 * i" by (intro start_bound) simp
  then show ?thesis using i by (rule fadd_increases)
qed

lemma fallback_properties:
  fixes ws :: "pystr list"
  defines "ts \<equiv> fallback_loop ws 0 []"
  shows "map entry_word ts = map Some ws \<and>
     (ts \<noteq> [] \<longrightarrow> start_time (ts ! 0) = Some 0) \<and>
     (\<forall>i. Suc i < length ts \<longrightarrow> start_time (ts ! Suc i) = end_time (ts ! i)) \<and>
     (\<forall>i<length ts. \<exists>k.
        start_time (ts ! i) = Some (dbl k) \<and> end_time (ts ! i) = Some (dbl (fadd k c02)) \<and>
        \<bar>dbl (fadd k c02) - dbl k - dbl c02\<bar> \<le> (dbl k + dbl c02) / 2 ^ 53 \<and>
        (i < 2 \<longrightarrow> dbl (fadd k c02) - dbl k = dbl c02) \<and>
        (length ts \<le> 2 ^ 52 \<longrightarrow> dbl k < dbl (fadd k c02)))"
proof (intro conjI allI impI)
  show "map entry_word ts = map Some ws" by (simp add: ts_def fallback_words)
next
  assume "ts \<noteq> []"
  then have "0 < length ws" by (cases ws) (simp_all add: ts_def)
  from fallback_entry_times(1) [OF this] show "start_time (ts ! 0) = Some 0"
    by (simp add: ts_def dbl_zero)
next
  fix i
  assume "Suc i < length ts"
  then have a: "Suc i < length ws" and b: "i < length ws" by (simp_all add: ts_def length_fallback_loop)
  show "start_time (ts ! Suc i) = end_time (ts ! i)"
    by (simp add: ts_def fallback_entry_times(1) [OF a] fallback_entry_times(2) [OF b])
next
  fix i
  assume "i < length ts"
  then have i: "i < length ws" by (simp add: ts_def length_fallback_loop)
  define k where "k = ((\<lambda>x. fadd x c02) ^^ i) 0"
  have "start_time (ts ! i) = Some (dbl k)" "end_time (ts ! i) = Some (dbl (fadd k c02))"
    by (simp_all add: ts_def k_def fallback_entry_times [OF i])
  moreover have "\<bar>dbl (fadd k c02) - dbl k - dbl c02\<bar> \<le> (dbl k + dbl c02) / 2 ^ 53"
    by (rule dbl_fadd_close)
  moreover have "i < 2 \<longrightarrow> dbl (fadd k c02) - dbl k = dbl c02"
    by (simp add: k_def start_small dbl_add)
  moreover have "length ts \<le> 2 ^ 52 \<longrightarrow> dbl k < dbl (fadd k c02)"
    using fallback_entry_ordered [OF i]
    by (simp add: dbl_less k_def ts_def length_fallback_loop)
  ultimately show "\<exists>k.
        start_time (ts ! i) = Some (dbl k) \<and> end_time (ts ! i) = Some (dbl (fadd k c02)) \<and>
        \<bar>dbl (fadd k c02) - dbl k - dbl c02\<bar> \<le> (dbl k + dbl c02) / 2 ^ 53 \<and>
        (i < 2 \<longrightarrow> dbl (fadd k c02) - dbl k = dbl c02) \<and>
        (length ts \<le> 2 ^ 52 \<longrightarrow> dbl k < dbl (fadd k c02))"
    by blast
qed

lemma fallback_intervals:
  assumes "length ws \<le> 2 ^ 52" and "entry \<in> set (fallback_loop ws 0 [])"
  shows "interval_ok entry"
proof -
  from assms(2) obtain i where i: "i < length ws" and e: "entry = fallback_loop ws 0 [] ! i"
    by (auto simp add: in_set_conv_nth length_fallback_loop)
  from fallback_entry_ordered [OF i assms(1)] show ?thesis
    by (simp add: interval_ok_def e fallback_entry_times [OF i] dbl_less)
qed

lemma start_values:
  "fadd 0 c02 = 7205759403792794"
  "fadd 7205759403792794 c02 = 14411518807585588"
  "fadd 14411518807585588 c02 = 21617278211378384"
  by (simp_all add: fadd_def c02_def rne53_def Let_def bit_length.simps)

section \<open>Termination without a process\<close>

text \<open>
  C2. The claim is that \<open>terminate()\<close> on a wrapper without a process returns normally and
  changes nothing. \<open>terminate\<close> calls \<open>self.process.poll()\<close> without looking whether
  \<open>self.process\<close> is \<open>None\<close>, which \<open>synthesize\<close> does look at: on every wrapper without a
  process it raises \<open>AttributeError\<close>, as it does on the wrapper that \<open>__init__\<close> builds when
  \<open>shutil.which\<close> finds nothing.
\<close>

theorem terminate_without_process_raises:
  "terminate \<lparr>executable = exe, process = None\<rparr> e = Inl (AttributeError none_has_no_poll) \<and>
   init (stub_env\<lparr>which := (\<lambda>_. None)\<rparr>) (ustr ''piper'') None None = Inr absent \<and>
   terminate absent stub_env = Inl (AttributeError none_has_no_poll)"
  by (simp add: terminate_def init_def truthy_def absent_def)

section \<open>The three checks\<close>







section \<open>The scratch directory\<close>

text \<open>
  C9. A call that passes the three checks creates the scratch directory \<open>tmp_name e\<close>.
  Whatever the \<open>with\<close> block does then (it returns a result, or the write, the read, the
  engine's answer, the sidecar file or the audio file makes it raise), the file system
  after the call holds neither the directory nor anything in it.
\<close>

theorem scratch_directory_removed:
  assumes "ready self" and "under (tmp_name e) q"
  shows "snd (synthesize self text e) q = None"
proof -
  from synthesize_ready [OF assms(1), of "text" e] obtain p where
    "snd (synthesize self text e) =
       rmtree (tmp_name e)
         (fst (snd (with_body e p text (tmp_name e) (mkdtemp (tmp_name e) (fs e)))))"
    by auto
  with assms(2) show ?thesis by (simp add: rmtree_under)
qed

theorem scratch_directory_removed_witness:
  "ready piper \<and>
   under (tmp_name stub_env) (ustr ''/tmp/tmpq1/output.wav'') \<and>
   answered_fs stub_env (ustr ''hi'') (ustr ''/tmp/tmpq1/output.wav'') = Some (File silence) \<and>
   snd (synthesize piper (ustr ''hi'') stub_env) (ustr ''/tmp/tmpq1/output.wav'') = None \<and>
   under (tmp_name refusing_env) (ustr ''/tmp/tmpq1'') \<and>
   fst (synthesize piper (ustr ''hi'') refusing_env) =
     Inl (RuntimeError (ustr ''Piper error: ERROR: bad model'')) \<and>
   snd (synthesize piper (ustr ''hi'') refusing_env) (ustr ''/tmp/tmpq1'') = None"
  using scratch_directory_removed
      [of piper stub_env "ustr ''/tmp/tmpq1/output.wav''" "ustr ''hi''"]
    scratch_directory_removed [of piper refusing_env "ustr ''/tmp/tmpq1''" "ustr ''hi''"]
  by (simp add: scenario_defs run_defs)

section \<open>The timings\<close>

text \<open>
  C10. When the engine serves the request, there is no sidecar file, and the text is
  empty or consists of white space only, \<open>synthesize\<close> returns the encoded audio, the
  MIME type \<open>audio/wav\<close> and the empty list of timings.
\<close>

theorem blank_text_gives_no_timings:
  assumes "served self text e audio"
    and "\<not> path_exists (answered_fs e text) (timings_json_path (tmp_name e))"
    and "\<forall>c\<in>set text. is_space c"
  shows "fst (synthesize self text e) =
     Inr \<lparr>audioContent = b64encode audio, mimeType = ustr ''audio/wav'', timings = PList []\<rparr>"
proof -
  from assms(1) have "stat_error e (timings_json_path (tmp_name e)) = None"
    by (simp add: served_def)
  from load_timings_absent [OF this assms(2)] split_blank [OF assms(3)] show ?thesis
    by (simp add: synthesize_served [OF assms(1)] fallback_timings_def)
qed

theorem blank_text_gives_no_timings_witness:
  "served piper [32, 9, 10] stub_env silence \<and>
   \<not> path_exists (answered_fs stub_env [32, 9, 10]) (timings_json_path (tmp_name stub_env)) \<and>
   is_space 32 \<and> is_space 9 \<and> is_space 10 \<and>
   fst (synthesize piper [32, 9, 10] stub_env) =
     Inr \<lparr>audioContent = ustr ''UklGRg=='', mimeType = ustr ''audio/wav'', timings = PList []\<rparr> \<and>
   served piper [] stub_env silence \<and>
   fst (synthesize piper [] stub_env) =
     Inr \<lparr>audioContent = ustr ''UklGRg=='', mimeType = ustr ''audio/wav'', timings = PList []\<rparr>"
  using blank_text_gives_no_timings [of piper "[32, 9, 10]" stub_env silence]
    blank_text_gives_no_timings [of piper "[]" stub_env silence]
  by (simp add: scenario_defs run_defs b64char_def)

text \<open>
  C5. When the sidecar file exists once the engine has answered, every result that
  \<open>synthesize\<close> returns carries as timings what \<open>json.loads\<close> makes of that file's
  content, unchanged, whatever words the text has: the estimate is not used. And the
  call does return that result whenever the engine serves the request and the file
  parses.
\<close>

theorem sidecar_timings_verbatim:
  assumes "path_exists (answered_fs e text) (timings_json_path (tmp_name e))"
  shows "(\<forall>r. fst (synthesize self text e) = Inr r \<longrightarrow>
            (\<exists>content. answered_fs e text (timings_json_path (tmp_name e)) = Some (File content) \<and>
                       json_loads e content = Inr (timings r))) \<and>
         (\<forall>audio content v.
            served self text e audio \<and>
            answered_fs e text (timings_json_path (tmp_name e)) = Some (File content) \<and>
            json_loads e content = Inr v \<longrightarrow>
            fst (synthesize self text e) =
              Inr \<lparr>audioContent = b64encode audio, mimeType = ustr ''audio/wav'', timings = v\<rparr>)"
proof (intro conjI allI impI)
  fix r
  assume "fst (synthesize self text e) = Inr r"
  from synthesize_Inr [OF this]
  have "fst (load_timings e text (tmp_name e) (answered_fs e text)) = Inr (timings r)" by auto
  from load_timings_Inr [OF this] assms
  show "\<exists>content. answered_fs e text (timings_json_path (tmp_name e)) = Some (File content) \<and>
                  json_loads e content = Inr (timings r)"
    by simp
next
  fix audio content v
  assume a: "served self text e audio \<and>
            answered_fs e text (timings_json_path (tmp_name e)) = Some (File content) \<and>
            json_loads e content = Inr v"
  then have s: "served self text e audio" by simp
  then have "stat_error e (timings_json_path (tmp_name e)) = None" by (simp add: served_def)
  from load_timings_present [OF this, of "answered_fs e text" content "text"] a
  have "fst (load_timings e text (tmp_name e) (answered_fs e text)) = Inr v" by simp
  with synthesize_served [OF s]
  show "fst (synthesize self text e) =
          Inr \<lparr>audioContent = b64encode audio, mimeType = ustr ''audio/wav'', timings = v\<rparr>"
    by simp
qed

theorem sidecar_timings_verbatim_witness:
  "path_exists (answered_fs sidecar_env (ustr ''a b c''))
     (timings_json_path (tmp_name sidecar_env)) \<and>
   served piper (ustr ''a b c'') sidecar_env silence \<and>
   answered_fs sidecar_env (ustr ''a b c'') (timings_json_path (tmp_name sidecar_env)) =
     Some (File sidecar_text) \<and>
   json_loads sidecar_env sidecar_text = Inr sidecar_value \<and>
   fst (synthesize piper (ustr ''a b c'') sidecar_env) =
     Inr \<lparr>audioContent = ustr ''UklGRg=='', mimeType = ustr ''audio/wav'',
          timings = sidecar_value\<rparr>"
  using sidecar_timings_verbatim [of sidecar_env "ustr ''a b c''" piper]
  by (simp add: scenario_defs run_defs b64char_def)

section \<open>The engine's answer\<close>

text \<open>
  C4. The claim covers a line that trims to the empty string. The source guards the check
  with \<open>if resp_path and ...\<close>: for such a line no path is looked up and no error is
  raised (the empty path would name the current directory, which is no file), and with
  the audio file in place the call succeeds.
\<close>

theorem blank_line_not_reported:
  "response blank_env (make_request (ustr ''hi'') (tmp_name blank_env)) = Inr [10] \<and>
   strip [10] = [] \<and>
   answered_fs blank_env (ustr ''hi'') [] = Some Dir \<and>
   fst (synthesize piper (ustr ''hi'') blank_env) =
     Inr \<lparr>audioContent = ustr ''UklGRg=='', mimeType = ustr ''audio/wav'',
          timings = fallback_timings (ustr ''hi'')\<rparr>"
  by (simp add: scenario_defs run_defs b64char_def)

text \<open>
  C4, as amended. When the answer of the engine, trimmed, is not empty and
  \<open>Path.exists()\<close> returns \<open>False\<close> for it, \<open>synthesize\<close> fails with \<open>Piper error:\<close> followed
  by the trimmed line. When \<open>Path.exists()\<close> raises an \<open>OSError\<close> for it, that exception
  leaves \<open>synthesize\<close> instead. When the line is not empty but trims to the empty string,
  the check is skipped and the call goes on to the timings and the audio file.
\<close>

theorem engine_error_line_reported:
  assumes "ready self" and "write_error e = None"
    and "response e (make_request text (tmp_name e)) = Inr line"
  shows "(strip line \<noteq> [] \<and> stat_exists e (answered_fs e text) (strip line) = Inr False \<longrightarrow>
            fst (synthesize self text e) = Inl (RuntimeError (ustr ''Piper error: '' @ strip line))) \<and>
         (\<forall>exc. strip line \<noteq> [] \<and> stat_exists e (answered_fs e text) (strip line) = Inl exc \<longrightarrow>
            fst (synthesize self text e) = Inl exc) \<and>
         (line \<noteq> [] \<and> strip line = [] \<longrightarrow>
            fst (synthesize self text e) =
              fst (finish e text (tmp_name e) (answered_fs e text)))"
proof -
  from synthesize_ready [OF assms(1), of "text" e] obtain p where
    "fst (synthesize self text e) =
       fst (with_body e p text (tmp_name e) (mkdtemp (tmp_name e) (fs e)))"
    by auto
  with assms(2,3) show ?thesis
    by (auto simp add: with_body_fst answered_fs_def strip_Nil)
qed

theorem engine_error_line_reported_witness:
  "ready piper \<and> write_error refusing_env = None \<and>
   response refusing_env (make_request (ustr ''hi'') (tmp_name refusing_env)) =
     Inr (ustr ''ERROR: bad model'' @ [10]) \<and>
   strip (ustr ''ERROR: bad model'' @ [10]) = ustr ''ERROR: bad model'' \<and>
   ustr ''ERROR: bad model'' \<noteq> [] \<and>
   stat_exists refusing_env (answered_fs refusing_env (ustr ''hi'')) (ustr ''ERROR: bad model'') =
     Inr False \<and>
   fst (synthesize piper (ustr ''hi'') refusing_env) =
     Inl (RuntimeError (ustr ''Piper error: ERROR: bad model'')) \<and>
   write_error denied_env = None \<and>
   response denied_env (make_request (ustr ''hi'') (tmp_name denied_env)) =
     Inr (ustr ''/root/out.wav'' @ [10]) \<and>
   strip (ustr ''/root/out.wav'' @ [10]) = ustr ''/root/out.wav'' \<and>
   stat_exists denied_env (answered_fs denied_env (ustr ''hi'')) (ustr ''/root/out.wav'') =
     Inl (OSError (errno_text ''[Errno 13] Permission denied: '' (ustr ''/root/out.wav''))) \<and>
   fst (synthesize piper (ustr ''hi'') denied_env) =
     Inl (OSError (errno_text ''[Errno 13] Permission denied: '' (ustr ''/root/out.wav''))) \<and>
   write_error blank_env = None \<and>
   response blank_env (make_request (ustr ''hi'') (tmp_name blank_env)) = Inr [10] \<and>
   strip [10] = [] \<and>
   fst (synthesize piper (ustr ''hi'') blank_env) =
     fst (finish blank_env (ustr ''hi'') (tmp_name blank_env) (answered_fs blank_env (ustr ''hi'')))"
  using engine_error_line_reported
      [of piper refusing_env "ustr ''hi''" "ustr ''ERROR: bad model'' @ [10]"]
    engine_error_line_reported [of piper denied_env "ustr ''hi''" "ustr ''/root/out.wav'' @ [10]"]
    engine_error_line_reported [of piper blank_env "ustr ''hi''" "[10]"]
  by (simp add: scenario_defs run_defs)

section \<open>The message for a missing engine\<close>

text \<open>
  C8. The claim has the output of the probe relayed verbatim. The source trims it: a
  probe that prints \<open>piper 1.2.0\<close> and a newline on its diagnostic stream gives the
  message without the newline.
\<close>

theorem version_output_is_trimmed:
  "process absent = None \<and>
   subprocess_run version_env [executable absent, ustr ''--version''] =
     Inr ([], ustr ''piper 1.2.0'' @ [10]) \<and>
   fst (synthesize absent (ustr ''hi'') version_env) = Inl (RuntimeError (ustr ''piper 1.2.0'')) \<and>
   ustr ''piper 1.2.0'' \<noteq> ustr ''piper 1.2.0'' @ [10]"
  by (simp add: scenario_defs run_defs)

text \<open>
  C8, as amended. Without a process, \<open>synthesize\<close> fails with a \<open>RuntimeError\<close> whose
  message is the text of the \<open>OSError\<close> when the probe raises one; when the probe returns,
  the message is its diagnostic output with the white space at both ends removed or, when
  nothing is left of it, its standard output trimmed the same way or, when nothing is
  left of that either, the fixed text \<open>Piper executable not found\<close>. When the probe raises
  an exception that is not an \<open>OSError\<close>, no message is made and that exception leaves
  \<open>synthesize\<close>.
\<close>

theorem unavailable_message:
  assumes "process self = None"
  shows "fst (synthesize self text e) =
     (case subprocess_run e [executable self, ustr ''--version''] of
        Inl exc \<Rightarrow>
          (case os_error_text exc of
             Some os_text \<Rightarrow> Inl (RuntimeError os_text)
           | None \<Rightarrow> Inl exc)
      | Inr (out, err) \<Rightarrow>
          Inl (RuntimeError
            (if strip err \<noteq> [] then strip err
             else if strip out \<noteq> [] then strip out
             else ustr ''Piper executable not found'')))"
  using synthesize_no_process [OF assms, of "text" e]
  by (simp add: synthesize_def get_error_message_def Let_def
      split: sum.splits prod.splits option.splits)

theorem unavailable_message_witness:
  "process absent = None \<and>
   fst (synthesize absent (ustr ''hi'') version_env) = Inl (RuntimeError (ustr ''piper 1.2.0'')) \<and>
   fst (synthesize absent (ustr ''hi'') stub_env) = Inl (RuntimeError not_found_text) \<and>
   fst (synthesize absent (ustr ''hi'') (stub_env\<lparr>subprocess_run := (\<lambda>_. Inr ([10], [32, 10]))\<rparr>)) =
     Inl (RuntimeError (ustr ''Piper executable not found'')) \<and>
   fst (synthesize absent (ustr ''hi'') nul_env) = Inl (ValueError (ustr ''embedded null byte''))"
  using unavailable_message [of absent "ustr ''hi''" version_env]
    unavailable_message [of absent "ustr ''hi''" stub_env]
    unavailable_message
      [of absent "ustr ''hi''" "stub_env\<lparr>subprocess_run := (\<lambda>_. Inr ([10], [32, 10]))\<rparr>"]
    unavailable_message [of absent "ustr ''hi''" nul_env]
  by (simp add: scenario_defs run_defs)

section \<open>The fallback estimate\<close>

text \<open>
  C1. The claim has every entry last exactly \<open>0.2\<close>. The times are binary64 numbers:
  for the text \<open>a b c\<close> the third entry starts at \<open>0.4\<close> and ends at \<open>0.4 + 0.2\<close>, which is
  \<open>0.6000000000000001\<close>, and the difference of the two is \<open>0.2 + 2^-54\<close>, not the float
  \<open>0.2\<close> (\<open>dbl c02\<close>).
\<close>

theorem third_word_duration_differs:
  "served piper (ustr ''a b c'') stub_env silence \<and>
   \<not> path_exists (answered_fs stub_env (ustr ''a b c'')) (timings_json_path (tmp_name stub_env)) \<and>
   fst (synthesize piper (ustr ''a b c'') stub_env) =
     Inr \<lparr>audioContent = ustr ''UklGRg=='', mimeType = ustr ''audio/wav'',
          timings = PList
            [PDict [(ustr ''word'', PStr (ustr ''a'')),
                    (ustr ''startTime'', PFloat (Finite (dbl 0))),
                    (ustr ''endTime'', PFloat (Finite (dbl 7205759403792794)))],
             PDict [(ustr ''word'', PStr (ustr ''b'')),
                    (ustr ''startTime'', PFloat (Finite (dbl 7205759403792794))),
                    (ustr ''endTime'', PFloat (Finite (dbl 14411518807585588)))],
             PDict [(ustr ''word'', PStr (ustr ''c'')),
                    (ustr ''startTime'', PFloat (Finite (dbl 14411518807585588))),
                    (ustr ''endTime'', PFloat (Finite (dbl 21617278211378384)))]]\<rparr> \<and>
   c02 = 7205759403792794 \<and>
   dbl 21617278211378384 - dbl 14411518807585588 = dbl 7205759403792796 \<and>
   dbl 7205759403792796 \<noteq> dbl c02"
proof -
  have "fallback_timings (ustr ''a b c'') = PList
            [PDict [(ustr ''word'', PStr (ustr ''a'')),
                    (ustr ''startTime'', PFloat (Finite (dbl 0))),
                    (ustr ''endTime'', PFloat (Finite (dbl 7205759403792794)))],
             PDict [(ustr ''word'', PStr (ustr ''b'')),
                    (ustr ''startTime'', PFloat (Finite (dbl 7205759403792794))),
                    (ustr ''endTime'', PFloat (Finite (dbl 14411518807585588)))],
             PDict [(ustr ''word'', PStr (ustr ''c'')),
                    (ustr ''startTime'', PFloat (Finite (dbl 14411518807585588))),
                    (ustr ''endTime'', PFloat (Finite (dbl 21617278211378384)))]]"
    by (simp add: fallback_timings_def split_def is_space_def ustr_def fallback_loop_Cons
        start_values)
  moreover have "fst (synthesize piper (ustr ''a b c'') stub_env) =
     Inr \<lparr>audioContent = ustr ''UklGRg=='', mimeType = ustr ''audio/wav'',
          timings = fallback_timings (ustr ''a b c'')\<rparr>"
    by (simp add: scenario_defs run_defs b64char_def)
  moreover have "served piper (ustr ''a b c'') stub_env silence"
    by (simp add: scenario_defs run_defs)
  moreover have "\<not> path_exists (answered_fs stub_env (ustr ''a b c''))
      (timings_json_path (tmp_name stub_env))"
    by (simp add: scenario_defs run_defs)
  moreover have "dbl 21617278211378384 - dbl 14411518807585588 = dbl 7205759403792796"
    by (simp add: dbl_def)
  moreover have "dbl 7205759403792796 \<noteq> dbl c02"
    by (simp add: dbl_eq c02_def)
  ultimately show ?thesis by (simp add: c02_def)
qed

text \<open>
  C1, as amended. When the engine serves the request and there is no sidecar file,
  \<open>synthesize\<close> returns one entry for each word of \<open>text.split()\<close>, in the order of the
  words; the first entry starts at \<open>0.0\<close>; each entry starts where the one before it ends;
  each entry's end is the binary64 sum of its start and \<open>0.2\<close> (\<open>fadd k c02\<close> for the start
  \<open>k\<close>), so that its duration is \<open>0.2\<close> up to one rounding (a relative error of \<open>2^-53\<close> of
  the end) and exactly \<open>0.2\<close> for the first two entries; and for a text of at most \<open>2^52\<close>
  words every entry ends strictly after it starts.
\<close>

theorem fallback_timings_contiguous:
  assumes "served self text e audio"
    and "\<not> path_exists (answered_fs e text) (timings_json_path (tmp_name e))"
  shows "\<exists>ts.
     fst (synthesize self text e) =
       Inr \<lparr>audioContent = b64encode audio, mimeType = ustr ''audio/wav'', timings = PList ts\<rparr> \<and>
     map entry_word ts = map Some (split text) \<and>
     (ts \<noteq> [] \<longrightarrow> start_time (ts ! 0) = Some 0) \<and>
     (\<forall>i. Suc i < length ts \<longrightarrow> start_time (ts ! Suc i) = end_time (ts ! i)) \<and>
     (\<forall>i<length ts. \<exists>k.
        start_time (ts ! i) = Some (dbl k) \<and> end_time (ts ! i) = Some (dbl (fadd k c02)) \<and>
        \<bar>dbl (fadd k c02) - dbl k - dbl c02\<bar> \<le> (dbl k + dbl c02) / 2 ^ 53 \<and>
        (i < 2 \<longrightarrow> dbl (fadd k c02) - dbl k = dbl c02) \<and>
        (length ts \<le> 2 ^ 52 \<longrightarrow> dbl k < dbl (fadd k c02)))"
proof -
  from assms(1) have "stat_error e (timings_json_path (tmp_name e)) = None"
    by (simp add: served_def)
  from load_timings_absent [OF this assms(2)]
  have "fst (synthesize self text e) =
       Inr \<lparr>audioContent = b64encode audio, mimeType = ustr ''audio/wav'',
            timings = PList (fallback_loop (split text) 0 [])\<rparr>"
    by (simp add: synthesize_served [OF assms(1)] fallback_timings_def)
  with fallback_properties [of "split text"] show ?thesis by blast
qed

theorem fallback_timings_contiguous_witness:
  "served piper (ustr ''hello world'') stub_env silence \<and>
   \<not> path_exists (answered_fs stub_env (ustr ''hello world''))
       (timings_json_path (tmp_name stub_env)) \<and>
   split (ustr ''hello world'') = [ustr ''hello'', ustr ''world''] \<and>
   (\<exists>ts.
     fst (synthesize piper (ustr ''hello world'') stub_env) =
       Inr \<lparr>audioContent = b64encode silence, mimeType = ustr ''audio/wav'', timings = PList ts\<rparr> \<and>
     map entry_word ts = [Some (ustr ''hello''), Some (ustr ''world'')] \<and>
     start_time (ts ! 0) = Some 0 \<and>
     start_time (ts ! 1) = end_time (ts ! 0) \<and>
     (\<exists>k. start_time (ts ! 1) = Some (dbl k) \<and> end_time (ts ! 1) = Some (dbl (fadd k c02)) \<and>
        dbl (fadd k c02) - dbl k = dbl c02 \<and> dbl k < dbl (fadd k c02)))"
proof -
  have a: "served piper (ustr ''hello world'') stub_env silence"
    by (simp add: scenario_defs run_defs)
  have b: "\<not> path_exists (answered_fs stub_env (ustr ''hello world''))
       (timings_json_path (tmp_name stub_env))"
    by (simp add: scenario_defs run_defs)
  have c: "split (ustr ''hello world'') = [ustr ''hello'', ustr ''world'']"
    by (simp add: split_def is_space_def ustr_def)
  from fallback_timings_contiguous [OF a b] obtain ts where
    r: "fst (synthesize piper (ustr ''hello world'') stub_env) =
       Inr \<lparr>audioContent = b64encode silence, mimeType = ustr ''audio/wav'', timings = PList ts\<rparr>"
    and w: "map entry_word ts = map Some (split (ustr ''hello world''))"
    and z: "ts \<noteq> [] \<longrightarrow> start_time (ts ! 0) = Some 0"
    and n: "\<forall>i. Suc i < length ts \<longrightarrow> start_time (ts ! Suc i) = end_time (ts ! i)"
    and d: "\<forall>i<length ts. \<exists>k.
        start_time (ts ! i) = Some (dbl k) \<and> end_time (ts ! i) = Some (dbl (fadd k c02)) \<and>
        \<bar>dbl (fadd k c02) - dbl k - dbl c02\<bar> \<le> (dbl k + dbl c02) / 2 ^ 53 \<and>
        (i < 2 \<longrightarrow> dbl (fadd k c02) - dbl k = dbl c02) \<and>
        (length ts \<le> 2 ^ 52 \<longrightarrow> dbl k < dbl (fadd k c02))"
    by blast
  from w c have "length (map entry_word ts) = 2" by simp
  then have len: "length ts = 2" by simp
  then have ne: "ts \<noteq> []" by auto
  from len have "1 < length ts" by simp
  with d obtain k where st: "start_time (ts ! 1) = Some (dbl k) \<and>
        end_time (ts ! 1) = Some (dbl (fadd k c02)) \<and>
        \<bar>dbl (fadd k c02) - dbl k - dbl c02\<bar> \<le> (dbl k + dbl c02) / 2 ^ 53 \<and>
        ((1::nat) < 2 \<longrightarrow> dbl (fadd k c02) - dbl k = dbl c02) \<and>
        (length ts \<le> 2 ^ 52 \<longrightarrow> dbl k < dbl (fadd k c02))"
    by blast
  then have "start_time (ts ! 1) = Some (dbl k) \<and> end_time (ts ! 1) = Some (dbl (fadd k c02)) \<and>
        dbl (fadd k c02) - dbl k = dbl c02 \<and> dbl k < dbl (fadd k c02)"
    by (simp add: len)
  with a b c r w z n ne len show ?thesis
    by (auto simp add: numeral_2_eq_2)
qed

text \<open>
  C3. The claim covers the timings read from a sidecar file. They are returned as parsed,
  with no check: a sidecar file whose entry starts at 1 and ends at 0 comes back as it is.
\<close>

theorem sidecar_interval_reversed:
  "served piper (ustr ''a'') sidecar_env silence \<and>
   fst (synthesize piper (ustr ''a'') sidecar_env) =
     Inr \<lparr>audioContent = ustr ''UklGRg=='', mimeType = ustr ''audio/wav'',
          timings = PList [PDict [(ustr ''word'', PStr (ustr ''a'')),
                                  (ustr ''startTime'', PInt 1),
                                  (ustr ''endTime'', PInt 0)]]\<rparr> \<and>
   start_time (PDict [(ustr ''word'', PStr (ustr ''a'')),
                      (ustr ''startTime'', PInt 1),
                      (ustr ''endTime'', PInt 0)]) = Some 1 \<and>
   end_time (PDict [(ustr ''word'', PStr (ustr ''a'')),
                    (ustr ''startTime'', PInt 1),
                    (ustr ''endTime'', PInt 0)]) = Some 0 \<and>
   \<not> interval_ok (PDict [(ustr ''word'', PStr (ustr ''a'')),
                         (ustr ''startTime'', PInt 1),
                         (ustr ''endTime'', PInt 0)])"
  by (simp add: scenario_defs run_defs b64char_def interval_ok_def start_time_def end_time_def
      seconds_def)

text \<open>
  C3, as amended. When there is no sidecar file and the text has at most \<open>2^52\<close> words,
  every entry of the timings that \<open>synthesize\<close> returns starts strictly before it ends.
  Timings read from a sidecar file are returned as they are.
\<close>

text \<open>
  C3, as amended. When there is no sidecar file and the text has at most \<open>2^52\<close> words,
  every entry of the timings that \<open>synthesize\<close> returns starts strictly before it ends.
  Timings read from a sidecar file are returned as they are.
\<close>

theorem fallback_intervals_in_order:
  assumes "fst (synthesize self text e) = Inr r"
    and "\<not> path_exists (answered_fs e text) (timings_json_path (tmp_name e))"
    and "length (split text) \<le> 2 ^ 52"
  shows "\<forall>entry\<in>set (entries (timings r)). interval_ok entry"
proof -
  from synthesize_Inr [OF assms(1)]
  have "fst (load_timings e text (tmp_name e) (answered_fs e text)) = Inr (timings r)" by auto
  from load_timings_Inr [OF this] assms(2)
  have "timings r = PList (fallback_loop (split text) 0 [])"
    by (simp add: fallback_timings_def)
  with fallback_intervals [OF assms(3)] show ?thesis
    by (simp add: entries_def)
qed

theorem fallback_intervals_in_order_witness:
  "fst (synthesize piper (ustr ''hello world'') stub_env) =
     Inr \<lparr>audioContent = ustr ''UklGRg=='', mimeType = ustr ''audio/wav'',
          timings = PList
            [PDict [(ustr ''word'', PStr (ustr ''hello'')),
                    (ustr ''startTime'', PFloat (Finite (dbl 0))),
                    (ustr ''endTime'', PFloat (Finite (dbl 7205759403792794)))],
             PDict [(ustr ''word'', PStr (ustr ''world'')),
                    (ustr ''startTime'', PFloat (Finite (dbl 7205759403792794))),
                    (ustr ''endTime'', PFloat (Finite (dbl 14411518807585588)))]]\<rparr> \<and>
   \<not> path_exists (answered_fs stub_env (ustr ''hello world''))
       (timings_json_path (tmp_name stub_env)) \<and>
   length (split (ustr ''hello world'')) \<le> 2 ^ 52 \<and>
   interval_ok (PDict [(ustr ''word'', PStr (ustr ''hello'')),
                       (ustr ''startTime'', PFloat (Finite (dbl 0))),
                       (ustr ''endTime'', PFloat (Finite (dbl 7205759403792794)))]) \<and>
   interval_ok (PDict [(ustr ''word'', PStr (ustr ''world'')),
                       (ustr ''startTime'', PFloat (Finite (dbl 7205759403792794))),
                       (ustr ''endTime'', PFloat (Finite (dbl 14411518807585588)))])"
proof -
  have c: "split (ustr ''hello world'') = [ustr ''hello'', ustr ''world'']"
    by (simp add: split_def is_space_def ustr_def)
  then have d: "length (split (ustr ''hello world'')) \<le> 2 ^ 52" by simp
  have "fallback_timings (ustr ''hello world'') = PList
            [PDict [(ustr ''word'', PStr (ustr ''hello'')),
                    (ustr ''startTime'', PFloat (Finite (dbl 0))),
                    (ustr ''endTime'', PFloat (Finite (dbl 7205759403792794)))],
             PDict [(ustr ''word'', PStr (ustr ''world'')),
                    (ustr ''startTime'', PFloat (Finite (dbl 7205759403792794))),
                    (ustr ''endTime'', PFloat (Finite (dbl 14411518807585588)))]]"
    by (simp add: fallback_timings_def c fallback_loop_Cons start_values)
  moreover have "fst (synthesize piper (ustr ''hello world'') stub_env) =
     Inr \<lparr>audioContent = ustr ''UklGRg=='', mimeType = ustr ''audio/wav'',
          timings = fallback_timings (ustr ''hello world'')\<rparr>"
    by (simp add: scenario_defs run_defs b64char_def)
  ultimately have a: "fst (synthesize piper (ustr ''hello world'') stub_env) =
     Inr \<lparr>audioContent = ustr ''UklGRg=='', mimeType = ustr ''audio/wav'',
          timings = PList
            [PDict [(ustr ''word'', PStr (ustr ''hello'')),
                    (ustr ''startTime'', PFloat (Finite (dbl 0))),
                    (ustr ''endTime'', PFloat (Finite (dbl 7205759403792794)))],
             PDict [(ustr ''word'', PStr (ustr ''world'')),
                    (ustr ''startTime'', PFloat (Finite (dbl 7205759403792794))),
                    (ustr ''endTime'', PFloat (Finite (dbl 14411518807585588)))]]\<rparr>"
    by simp
  have b: "\<not> path_exists (answered_fs stub_env (ustr ''hello world''))
       (timings_json_path (tmp_name stub_env))"
    by (simp add: scenario_defs run_defs)
  from fallback_intervals_in_order [OF a b d] a b d show ?thesis
    by (simp add: entries_def)
qed

end
